theory Spec2Isabelle
  imports Main "HOL-Library.Word"
begin

section \<open>uriuniq: random URI-safe strings by rejection sampling\<close>

text \<open>
  A shallow embedding of \<^verbatim>\<open>uriuniq.go\<close>. Go's \<^verbatim>\<open>int\<close> is modelled as \<open>int\<close>
  (the counter \<^verbatim>\<open>badReads\<close> would need \<open>2^63\<close> buffer reads to wrap around), a
  \<^verbatim>\<open>byte\<close> drawn from the entropy source as an \<open>8 word\<close>, and a Go string or
  \<^verbatim>\<open>[]byte\<close> as a \<open>string\<close>, whose characters are bytes, so that \<open>length\<close> is
  Go's \<^verbatim>\<open>len\<close>.
\<close>

subsection \<open>Constants and options\<close>

type_synonym byte = "8 word"

definition Alphanumeric :: string where
  "Alphanumeric = ''abcdefghijklmnopqrstuvwxyzABCDEFGHIJKLMNOPQRSTUVWXYZ0123456789''"

definition Lowercase :: string where
  "Lowercase = ''abcdefghijklmnopqrstuvwxyz''"

definition Uppercase :: string where
  "Uppercase = ''ABCDEFGHIJKLMNOPQRSTUVWXYZ''"

definition Numeric :: string where
  "Numeric = ''0123456789''"

record Options =
  Length :: int
  ExcludeNumeric :: bool
  ExcludeLowercase :: bool
  ExcludeUppercase :: bool
  CustomCharset :: string
  MaxBadReads :: int

definition DefaultLength :: int where
  "DefaultLength = 16"

definition DefaultMaxBadReads :: int where
  "DefaultMaxBadReads = 150"

definition MaxBuffLength :: nat where
  "MaxBuffLength = 2048"

definition NewOpts :: Options where
  "NewOpts = \<lparr>Length = DefaultLength, ExcludeNumeric = False, ExcludeLowercase = False,
     ExcludeUppercase = False, CustomCharset = [], MaxBadReads = DefaultMaxBadReads\<rparr>"

subsection \<open>Errors, console output, the entropy source\<close>

text \<open>
  The three errors the package creates with \<^verbatim>\<open>errors.New\<close>, and the error of the
  random source, passed on as it is.
\<close>

datatype error =
    NoValidChars
  | CharsetSize
  | TooManyBadReads
  | ReadError string

text \<open>The two lines the package prints with \<^verbatim>\<open>fmt.Printf\<close>.\<close>

datatype notice =
    InvalidLength int
  | NotURISafe string

text \<open>
  One call \<^verbatim>\<open>rand.Read(buffer)\<close> either fails or reports \<^verbatim>\<open>readBytes\<close> bytes
  written at the front of the buffer; \<open>ReadOk bs\<close> carries those bytes
  (\<^verbatim>\<open>readBytes\<close> is \<open>length bs\<close>; for \<^verbatim>\<open>crypto/rand\<close> it is the whole buffer).
  An entropy source gives the outcome of the \<open>k\<close>-th call (from 0) for a buffer of \<open>n\<close> bytes.
\<close>

datatype rand_read =
    ReadFail string
  | ReadOk "byte list"

type_synonym entropy = "nat \<Rightarrow> nat \<Rightarrow> rand_read"

text \<open>
  What a call leaves behind: the two return values of the Go function, the sizes of the
  buffers handed to \<^verbatim>\<open>rand.Read\<close> in order, and the lines printed.
\<close>

record outcome =
  res_string :: string
  res_err :: "error option"
  res_reads :: "nat list"
  res_stdout :: "notice list"

subsection \<open>The charset resolver\<close>

definition safeChars :: string where
  "safeChars = ''ABCDEFGHIJKLMNOPQRSTUVWXYZabcdefghijklmnopqrstuvwxyz0123456789-_.~!*''
     @ [CHR 0x27] @ ''()''"

text \<open>
  \<^verbatim>\<open>isURISafe\<close> ranges over the runes of the string. Every rune of \<^verbatim>\<open>safeChars\<close> is
  ASCII, a byte below 128 is a rune of its own, and a byte from 128 on belongs to a rune
  that is not in the set, so the test is the same byte by byte.
\<close>

fun isURISafe :: "string \<Rightarrow> bool" where
  "isURISafe [] = True"
| "isURISafe (c # s) = (if c \<notin> set safeChars then False else isURISafe s)"

definition getCharset :: "Options \<Rightarrow> string \<times> notice list" where
  "getCharset opts =
     (if CustomCharset opts \<noteq> [] then
        (CustomCharset opts,
         if \<not> isURISafe (CustomCharset opts) then [NotURISafe (CustomCharset opts)] else [])
      else
        (let charset = [];
             charset = (if \<not> ExcludeNumeric opts then charset @ Numeric else charset);
             charset = (if \<not> ExcludeLowercase opts then charset @ Lowercase else charset);
             charset = (if \<not> ExcludeUppercase opts then charset @ Uppercase else charset);
             charset = (if ExcludeNumeric opts \<and> ExcludeLowercase opts \<and> ExcludeUppercase opts
                        then charset @ Alphanumeric else charset)
         in (charset, [])))"

subsection \<open>The sampler\<close>

text \<open>\<^verbatim>\<open>maxByte := byte(255 - (256 % charsetLen))\<close>\<close>

definition maxByte :: "nat \<Rightarrow> byte" where
  "maxByte charsetLen = word_of_int (255 - 256 mod int charsetLen)"

text \<open>
  The inner loop over the bytes read, \<^verbatim>\<open>for i := 0; i < readBytes && len(output) < length; i++\<close>:
  an accepted byte appends \<^verbatim>\<open>charset[int(byteVal)%charsetLen]\<close>, a rejected one is skipped.
\<close>

fun scan :: "int \<Rightarrow> string \<Rightarrow> byte list \<Rightarrow> string \<Rightarrow> string" where
  "scan len charset [] output = output"
| "scan len charset (byteVal # rest) output =
     (if int (length output) < len then
        scan len charset rest
          (if byteVal \<le> maxByte (length charset)
           then output @ [charset ! (unat byteVal mod length charset)]
           else output)
      else output)"

text \<open>
  The outer loop \<^verbatim>\<open>for len(output) < length\<close>, on the state \<open>(output, badReads)\<close>, with
  the buffer sizes requested so far.
\<close>

function readLoop ::
  "entropy \<Rightarrow> int \<Rightarrow> int \<Rightarrow> string \<Rightarrow> string \<Rightarrow> nat \<Rightarrow> nat list \<Rightarrow> outcome" where
  "readLoop src len maxBadReads charset output badReads reqs =
     (if int (length output) < len then
        (case src (length reqs) MaxBuffLength of
           ReadFail e \<Rightarrow>
             \<lparr>res_string = [], res_err = Some (ReadError e),
              res_reads = reqs @ [MaxBuffLength], res_stdout = []\<rparr>
         | ReadOk buffer \<Rightarrow>
             (let output' = scan len charset buffer output;
                  badReads' = Suc badReads
              in if int badReads' > maxBadReads then
                   \<lparr>res_string = [], res_err = Some TooManyBadReads,
                    res_reads = reqs @ [MaxBuffLength], res_stdout = []\<rparr>
                 else readLoop src len maxBadReads charset output' badReads'
                        (reqs @ [MaxBuffLength])))
      else \<lparr>res_string = output, res_err = None, res_reads = reqs, res_stdout = []\<rparr>)"
  by pat_completeness auto
termination
  by (relation "measure (\<lambda>(src, len, maxBadReads, charset, output, badReads, reqs).
        nat (maxBadReads - int badReads))") auto

definition randString :: "entropy \<Rightarrow> int \<Rightarrow> int \<Rightarrow> string \<Rightarrow> outcome" where
  "randString src len maxBadReads charset =
     (if len = 0 then
        \<lparr>res_string = [], res_err = None, res_reads = [], res_stdout = []\<rparr>
      else if length charset < 2 \<or> length charset > 256 then
        \<lparr>res_string = [], res_err = Some CharsetSize, res_reads = [], res_stdout = []\<rparr>
      else readLoop src len maxBadReads charset [] 0 [])"

subsection \<open>The entry point\<close>

definition Generate :: "entropy \<Rightarrow> Options \<Rightarrow> outcome" where
  "Generate src opts =
     (let (opts, out1) =
            (if Length opts \<le> 0
             then (opts\<lparr>Length := DefaultLength\<rparr>, [InvalidLength (Length opts)])
             else (opts, []));
          opts = (if MaxBadReads opts \<le> 0 then opts\<lparr>MaxBadReads := DefaultMaxBadReads\<rparr> else opts);
          (charset, out2) = getCharset opts
      in if length charset = 0 then
           \<lparr>res_string = [], res_err = Some NoValidChars, res_reads = [],
            res_stdout = out1 @ out2\<rparr>
         else (randString src (Length opts) (MaxBadReads opts) charset)
                \<lparr>res_stdout := out1 @ out2\<rparr>)"

subsection \<open>Entropy sources used as examples\<close>

text \<open>A source that fills the whole buffer with the byte \<open>b\<close> at every read.\<close>

definition constSource :: "byte \<Rightarrow> entropy" where
  "constSource b k n = ReadOk (replicate n b)"

text \<open>A source that always fails.\<close>

definition brokenSource :: entropy where
  "brokenSource k n = ReadFail ''unavailable''"

declare readLoop.simps [simp del]

section \<open>Properties of the loops\<close>

lemma scan_done: "\<not> int (length out) < len \<Longrightarrow> scan len charset bs out = out"
  by (cases bs) simp_all


lemma readLoop_done:
  "\<not> int (length out) < len \<Longrightarrow>
   readLoop src len m cs out k reqs =
     \<lparr>res_string = out, res_err = None, res_reads = reqs, res_stdout = []\<rparr>"
  by (subst readLoop.simps) simp

lemma readLoop_fail:
  "int (length out) < len \<Longrightarrow> src (length reqs) MaxBuffLength = ReadFail e \<Longrightarrow>
   readLoop src len m cs out k reqs =
     \<lparr>res_string = [], res_err = Some (ReadError e),
      res_reads = reqs @ [MaxBuffLength], res_stdout = []\<rparr>"
  by (subst readLoop.simps) simp

lemma readLoop_over:
  "int (length out) < len \<Longrightarrow> src (length reqs) MaxBuffLength = ReadOk buf \<Longrightarrow>
   m < int (Suc k) \<Longrightarrow>
   readLoop src len m cs out k reqs =
     \<lparr>res_string = [], res_err = Some TooManyBadReads,
      res_reads = reqs @ [MaxBuffLength], res_stdout = []\<rparr>"
  by (subst readLoop.simps) (simp add: Let_def)

lemma readLoop_step:
  "int (length out) < len \<Longrightarrow> src (length reqs) MaxBuffLength = ReadOk buf \<Longrightarrow>
   \<not> m < int (Suc k) \<Longrightarrow>
   readLoop src len m cs out k reqs =
     readLoop src len m cs (scan len cs buf out) (Suc k) (reqs @ [MaxBuffLength])"
  by (subst readLoop.simps) (simp add: Let_def)

lemma readLoop_branches [case_names finished fail over step]:
  obtains
    (finished) "\<not> int (length out) < len"
  | (fail) e where "int (length out) < len" "src (length reqs) MaxBuffLength = ReadFail e"
  | (over) buf where "int (length out) < len" "src (length reqs) MaxBuffLength = ReadOk buf"
      "m < int (Suc k)"
  | (step) buf where "int (length out) < len" "src (length reqs) MaxBuffLength = ReadOk buf"
      "\<not> m < int (Suc k)"
  by (cases "src (length reqs) MaxBuffLength") blast+

lemma readLoop_err_empty:
  "res_err (readLoop src len m cs out k reqs) \<noteq> None \<Longrightarrow>
   res_string (readLoop src len m cs out k reqs) = []"
proof (induction src len m cs out k reqs rule: readLoop.induct)
  case (1 src len m cs out k reqs)
  show ?case
  proof (cases rule: readLoop_branches[where out=out and len=len and src=src and reqs=reqs and m=m and k=k])
    case finished
    with "1.prems" show ?thesis by (simp add: readLoop_done)
  next
    case (fail e)
    then show ?thesis by (simp add: readLoop_fail)
  next
    case (over buf)
    then show ?thesis by (simp add: readLoop_over)
  next
    case (step buf)
    with "1.IH"[OF step(1,2) refl refl step(3)] "1.prems" show ?thesis
      by (simp add: readLoop_step)
  qed
qed




lemma readLoop_err_cases:
  "res_err (readLoop src len m cs out k reqs) = Some e \<Longrightarrow>
     e = TooManyBadReads \<or> (\<exists>msg. e = ReadError msg)"
proof (induction src len m cs out k reqs rule: readLoop.induct)
  case (1 src len m cs out k reqs)
  show ?case
  proof (cases rule: readLoop_branches[where out=out and len=len and src=src and reqs=reqs and m=m and k=k])
    case finished
    with "1.prems" show ?thesis by (simp add: readLoop_done)
  next
    case (fail e')
    with "1.prems" show ?thesis by (auto simp add: readLoop_fail)
  next
    case (over buf)
    with "1.prems" show ?thesis by (simp add: readLoop_over)
  next
    case (step buf)
    with "1.IH"[OF step(1,2) refl refl step(3)] "1.prems" show ?thesis
      by (simp add: readLoop_step)
  qed
qed

lemma readLoop_stdout: "res_stdout (readLoop src len m cs out k reqs) = []"
proof (induction src len m cs out k reqs rule: readLoop.induct)
  case (1 src len m cs out k reqs)
  show ?case
  proof (cases rule: readLoop_branches[where out=out and len=len and src=src and reqs=reqs and m=m and k=k])
    case finished
    then show ?thesis by (simp add: readLoop_done)
  next
    case (fail e)
    then show ?thesis by (simp add: readLoop_fail)
  next
    case (over buf)
    then show ?thesis by (simp add: readLoop_over)
  next
    case (step buf)
    with "1.IH"[OF step(1,2) refl refl step(3)] show ?thesis
      by (simp add: readLoop_step)
  qed
qed

subsection \<open>The inner loop on a buffer filled with one byte\<close>

lemma scan_replicate_reject:
  "\<not> b \<le> maxByte (length cs) \<Longrightarrow> scan len cs (replicate n b) out = out"
  by (induction n) simp_all

lemma scan_replicate_accept:
  "b \<le> maxByte (length cs) \<Longrightarrow>
   scan len cs (replicate n b) out =
     out @ replicate (min n (nat (len - int (length out)))) (cs ! (unat b mod length cs))"
proof (induction n arbitrary: out)
  case 0
  then show ?case by simp
next
  case (Suc n)
  let ?c = "cs ! (unat b mod length cs)"
  show ?case
  proof (cases "int (length out) < len")
    case False
    then have "nat (len - int (length out)) = 0" by simp
    with False show ?thesis by simp
  next
    case True
    have m: "min (Suc n) (nat (len - int (length out))) =
             Suc (min n (nat (len - int (length (out @ [?c])))))"
      using True by simp
    have "scan len cs (replicate (Suc n) b) out = scan len cs (replicate n b) (out @ [?c])"
      using True Suc.prems by simp
    also have "\<dots> = (out @ [?c]) @ replicate (min n (nat (len - int (length (out @ [?c]))))) ?c"
      using Suc.prems by (rule Suc.IH)
    also have "\<dots> = out @ replicate (Suc (min n (nat (len - int (length (out @ [?c])))))) ?c"
      by (simp only: append_assoc append_Cons append_Nil replicate_Suc)
    finally show ?thesis
      by (simp only: m)
  qed
qed

subsection \<open>The inner loop as a filter\<close>


subsection \<open>The sampler and the entry point\<close>

lemma readLoop_constSource:
  "readLoop (constSource b) len m cs out k reqs =
     (if int (length out) < len then
        (if m < int (Suc k) then
           \<lparr>res_string = [], res_err = Some TooManyBadReads,
            res_reads = reqs @ [MaxBuffLength], res_stdout = []\<rparr>
         else readLoop (constSource b) len m cs (scan len cs (replicate MaxBuffLength b) out)
                (Suc k) (reqs @ [MaxBuffLength]))
      else \<lparr>res_string = out, res_err = None, res_reads = reqs, res_stdout = []\<rparr>)"
  by (subst readLoop.simps) (simp add: constSource_def Let_def)

lemma randString_err_empty:
  "res_err (randString src len m cs) \<noteq> None \<Longrightarrow> res_string (randString src len m cs) = []"
  using readLoop_err_empty[of src len m cs "[]" 0 "[]"]
  by (auto simp add: randString_def split: if_splits)




lemma randString_stdout: "res_stdout (randString src len m cs) = []"
  by (simp add: randString_def readLoop_stdout)

lemma randString_not_NoValidChars: "res_err (randString src len m cs) \<noteq> Some NoValidChars"
  by (auto simp: randString_def dest: readLoop_err_cases)

lemma randString_CharsetSize_iff:
  "res_err (randString src len m cs) = Some CharsetSize \<longleftrightarrow>
     len \<noteq> 0 \<and> (length cs < 2 \<or> 256 < length cs)"
  by (auto simp: randString_def dest: readLoop_err_cases)

lemma getCharset_Length: "getCharset (opts\<lparr>Length := l\<rparr>) = getCharset opts"
  by (simp add: getCharset_def)

lemma getCharset_MaxBadReads: "getCharset (opts\<lparr>MaxBadReads := l\<rparr>) = getCharset opts"
  by (simp add: getCharset_def)

lemma Generate_unfold:
  "Generate src opts =
     (if fst (getCharset opts) = [] then
        \<lparr>res_string = [], res_err = Some NoValidChars, res_reads = [],
         res_stdout = (if Length opts \<le> 0 then [InvalidLength (Length opts)] else [])
                        @ snd (getCharset opts)\<rparr>
      else (randString src (if Length opts \<le> 0 then DefaultLength else Length opts)
              (if MaxBadReads opts \<le> 0 then DefaultMaxBadReads else MaxBadReads opts)
              (fst (getCharset opts)))
             \<lparr>res_stdout := (if Length opts \<le> 0 then [InvalidLength (Length opts)] else [])
                              @ snd (getCharset opts)\<rparr>)"
  by (simp add: Generate_def Let_def getCharset_Length getCharset_MaxBadReads
      split: prod.splits)

lemma getCharset_flags:
  "CustomCharset opts = [] \<Longrightarrow>
   fst (getCharset opts) =
     (if ExcludeNumeric opts \<and> ExcludeLowercase opts \<and> ExcludeUppercase opts then Alphanumeric
      else (if ExcludeNumeric opts then [] else Numeric)
           @ (if ExcludeLowercase opts then [] else Lowercase)
           @ (if ExcludeUppercase opts then [] else Uppercase))"
  by (simp add: getCharset_def Let_def)

lemma charset_lengths:
  "length Numeric = 10" "length Lowercase = 26" "length Uppercase = 26"
  "length Alphanumeric = 62"
  by (simp_all add: Numeric_def Lowercase_def Uppercase_def Alphanumeric_def)

lemma getCharset_flags_length:
  "CustomCharset opts = [] \<Longrightarrow> length (fst (getCharset opts)) \<in> {10, 26, 36, 52, 62}"
  by (simp add: getCharset_flags charset_lengths)

lemma isURISafe_iff: "isURISafe s \<longleftrightarrow> set s \<subseteq> set safeChars"
  by (induction s) simp_all

section \<open>The acceptance bound\<close>





section \<open>Runs on concrete inputs\<close>

text \<open>The sampler and the entry point evaluated on the example sources.\<close>

lemma eval_length_zero:
  "randString src 0 m cs =
     \<lparr>res_string = [], res_err = None, res_reads = [], res_stdout = []\<rparr>"
  by (simp add: randString_def)

lemma eval_all_rejected:
  "randString (constSource 255) 4 2 ''abc'' =
     \<lparr>res_string = [], res_err = Some TooManyBadReads, res_reads = [2048, 2048, 2048],
      res_stdout = []\<rparr>"
  by (simp add: randString_def readLoop_constSource scan_replicate_reject maxByte_def
      MaxBuffLength_def)

lemma eval_broken:
  "Generate brokenSource NewOpts =
     \<lparr>res_string = [], res_err = Some (ReadError ''unavailable''), res_reads = [2048],
      res_stdout = []\<rparr>"
  by (simp add: Generate_unfold NewOpts_def getCharset_def Numeric_def Lowercase_def
      Uppercase_def DefaultLength_def DefaultMaxBadReads_def randString_def
      readLoop_fail brokenSource_def MaxBuffLength_def)



lemma Alphanumeric_split: "Alphanumeric = Lowercase @ Uppercase @ Numeric"
  by (simp add: Alphanumeric_def Lowercase_def Uppercase_def Numeric_def)

lemma unsafe_example: "\<not> isURISafe ''abcABC123<>#''"
  by (simp add: safeChars_def)

section \<open>The claims of the specification\<close>

subsection \<open>C1: the retry budget\<close>

text \<open>
  C1 says that a read which completes the output is not counted against
  \<^verbatim>\<open>maxBadReads\<close>, so that a call whose output reaches the target length during the
  \<open>(maxBadReads + 1)\<close>-th read succeeds. The loop increments \<^verbatim>\<open>badReads\<close> after every
  read and tests \<^verbatim>\<open>badReads > maxBadReads\<close> before it looks at \<^verbatim>\<open>len(output)\<close> again.
  With \<^verbatim>\<open>Length = 2049\<close>, \<^verbatim>\<open>MaxBadReads = 1\<close> and the alphabet \<^verbatim>\<open>"ab"\<close> no byte is
  ever rejected: the first read gives 2048 characters, the second read completes the
  2049 characters, and \<^verbatim>\<open>Generate\<close> returns "too many bad reads" all the same.
\<close>

theorem completing_read_exhausts_budget:
  "Generate (constSource 0)
     (NewOpts\<lparr>Length := 2049, MaxBadReads := 1, CustomCharset := ''ab''\<rparr>) =
     \<lparr>res_string = [], res_err = Some TooManyBadReads, res_reads = [2048, 2048],
      res_stdout = []\<rparr> \<and>
   length (scan 2049 ''ab'' (replicate 2048 0) (scan 2049 ''ab'' (replicate 2048 0) [])) = 2049"
proof -
  have acc: "(0::byte) \<le> maxByte (length ''ab'')"
    by (simp add: maxByte_def)
  have s1: "scan 2049 ''ab'' (replicate 2048 0) [] = replicate 2048 (CHR ''a'')"
    by (simp add: scan_replicate_accept[OF acc])
  have s2: "length (scan 2049 ''ab'' (replicate 2048 0) (replicate 2048 (CHR ''a''))) = 2049"
    by (simp add: scan_replicate_accept[OF acc])
  have g: "getCharset (NewOpts\<lparr>Length := 2049, MaxBadReads := 1, CustomCharset := ''ab''\<rparr>)
             = (''ab'', [])"
    by (simp add: getCharset_def safeChars_def)
  have "readLoop (constSource 0) 2049 1 ''ab'' [] 0 [] =
     \<lparr>res_string = [], res_err = Some TooManyBadReads, res_reads = [2048, 2048],
      res_stdout = []\<rparr>"
    by (simp add: readLoop_constSource[of _ _ _ _ "[]"] MaxBuffLength_def s1
      readLoop_constSource[of _ _ _ _ "replicate 2048 (CHR ''a'')"])
  then have "Generate (constSource 0)
     (NewOpts\<lparr>Length := 2049, MaxBadReads := 1, CustomCharset := ''ab''\<rparr>) =
     \<lparr>res_string = [], res_err = Some TooManyBadReads, res_reads = [2048, 2048],
      res_stdout = []\<rparr>"
    by (simp add: Generate_unfold g randString_def)
  with s1 s2 show ?thesis
    by (simp only:) 
qed

subsection \<open>C2: the acceptance bound and the uniform mapping\<close>



subsection \<open>C3: length zero\<close>

text \<open>
  C3 as stated fails: \<^verbatim>\<open>Generate\<close> replaces a length of 0 by the default 16 before it
  calls the sampler, so with the default options and length 0 it reads the source once
  and returns sixteen characters.
\<close>

theorem zero_length_counterexample:
  "\<not> (res_string (Generate (constSource 0) (NewOpts\<lparr>Length := 0\<rparr>)) = [] \<and>
       res_err (Generate (constSource 0) (NewOpts\<lparr>Length := 0\<rparr>)) = None \<and>
       res_reads (Generate (constSource 0) (NewOpts\<lparr>Length := 0\<rparr>)) = [])"
proof -
  have "Generate (constSource 0) (NewOpts\<lparr>Length := 0\<rparr>) =
     \<lparr>res_string = replicate 16 (CHR ''0''), res_err = None, res_reads = [2048],
      res_stdout = [InvalidLength 0]\<rparr>"
    by (simp add: Generate_unfold NewOpts_def getCharset_def Numeric_def Lowercase_def
      Uppercase_def DefaultLength_def DefaultMaxBadReads_def randString_def
      readLoop_constSource scan_replicate_accept maxByte_def MaxBuffLength_def)
  then show ?thesis by simp
qed

text \<open>
  C3, amended: the sampler \<^verbatim>\<open>randString\<close> called with length 0 returns the empty
  string, no error, and reads nothing; \<^verbatim>\<open>Generate\<close> with length 0 in the options
  behaves as with the default length, apart from the line it prints.
\<close>

theorem zero_length:
  "randString src 0 m cs =
     \<lparr>res_string = [], res_err = None, res_reads = [], res_stdout = []\<rparr> \<and>
   Generate src (opts\<lparr>Length := 0\<rparr>) =
     (Generate src (opts\<lparr>Length := DefaultLength\<rparr>))
       \<lparr>res_stdout := InvalidLength 0 # res_stdout (Generate src (opts\<lparr>Length := DefaultLength\<rparr>))\<rparr>"
  by (simp add: eval_length_zero Generate_unfold getCharset_Length DefaultLength_def)

subsection \<open>C4: the length of the result\<close>



subsection \<open>C5: the alphabet size error\<close>

text \<open>
  C5 as stated fails at length 0: the sampler returns before it looks at the alphabet,
  so a one-character alphabet gives no error there.
\<close>

theorem charset_size_counterexample:
  "\<not> (res_err (randString (constSource 0) 0 150 ''a'') = Some CharsetSize \<longleftrightarrow>
        length ''a'' < 2 \<or> 256 < length ''a'')"
  by (simp add: eval_length_zero)

text \<open>
  C5, amended: for every length other than 0 (so for every length above 0) and every
  \<^verbatim>\<open>maxBadReads\<close>, the sampler returns the alphabet size error exactly when the size is
  outside \<open>[2, 256]\<close>, and then it has read nothing from the source; sizes 2 and 256
  are inside.
\<close>

theorem charset_size_error:
  "len \<noteq> 0 \<Longrightarrow>
     (res_err (randString src len m cs) = Some CharsetSize \<longleftrightarrow>
        length cs < 2 \<or> 256 < length cs) \<and>
     (res_err (randString src len m cs) = Some CharsetSize \<longrightarrow>
        res_reads (randString src len m cs) = [])"
  by (auto simp: randString_CharsetSize_iff) (simp_all add: randString_def)

text \<open>
  C5 at length 10 and the alphabet \<^verbatim>\<open>"a"\<close>.
\<close>

theorem charset_size_error_witness:
  "(10::int) \<noteq> 0 \<and> length ''a'' < 2 \<and>
   res_err (randString (constSource 0) 10 150 ''a'') = Some CharsetSize \<and>
   res_reads (randString (constSource 0) 10 150 ''a'') = []"
proof -
  have h: "(10::int) \<noteq> 0" by simp
  have s: "length ''a'' < 2" by simp
  from charset_size_error[OF h, of "constSource 0" 150 "''a''"] s h show ?thesis
    by blast
qed

subsection \<open>C6: the alphabet built from the flags\<close>

text \<open>
  C6. Without a custom alphabet, \<^verbatim>\<open>getCharset\<close> returns the concatenation, in the
  order numeric, lowercase, uppercase, of the subsets that are not excluded, and the
  full alphanumeric set when all three are excluded; that set has the same members as
  the three subsets together.
\<close>

theorem flag_charset:
  "CustomCharset opts = [] \<Longrightarrow>
     fst (getCharset opts) =
       (if ExcludeNumeric opts \<and> ExcludeLowercase opts \<and> ExcludeUppercase opts
        then Alphanumeric
        else concat (map snd (filter (\<lambda>(excluded, subset). \<not> excluded)
               [(ExcludeNumeric opts, Numeric), (ExcludeLowercase opts, Lowercase),
                (ExcludeUppercase opts, Uppercase)]))) \<and>
     set Alphanumeric = set Numeric \<union> set Lowercase \<union> set Uppercase"
proof (intro conjI)
  assume "CustomCharset opts = []"
  then show "fst (getCharset opts) =
       (if ExcludeNumeric opts \<and> ExcludeLowercase opts \<and> ExcludeUppercase opts
        then Alphanumeric
        else concat (map snd (filter (\<lambda>(excluded, subset). \<not> excluded)
               [(ExcludeNumeric opts, Numeric), (ExcludeLowercase opts, Lowercase),
                (ExcludeUppercase opts, Uppercase)])))"
    by (simp add: getCharset_flags)
next
  show "set Alphanumeric = set Numeric \<union> set Lowercase \<union> set Uppercase"
    by (simp only: Alphanumeric_split set_append) blast
qed

text \<open>
  C6 with numeric and lowercase excluded: the alphabet is the uppercase set.
\<close>

theorem flag_charset_witness:
  "CustomCharset (NewOpts\<lparr>ExcludeNumeric := True, ExcludeLowercase := True\<rparr>) = [] \<and>
   fst (getCharset (NewOpts\<lparr>ExcludeNumeric := True, ExcludeLowercase := True\<rparr>)) = Uppercase"
proof -
  have h: "CustomCharset (NewOpts\<lparr>ExcludeNumeric := True, ExcludeLowercase := True\<rparr>) = []"
    by (simp add: NewOpts_def)
  from flag_charset[OF h] h show ?thesis
    by (simp add: NewOpts_def)
qed

subsection \<open>C7: custom alphabets\<close>

text \<open>
  C7. A non-empty custom alphabet is returned as it is; characters outside the URI-safe
  set only add a printed warning; and when its size is in \<open>[2, 256]\<close>, \<^verbatim>\<open>Generate\<close>
  returns what the sampler returns on that alphabet, which is never one of the two
  configuration errors.
\<close>

theorem custom_charset:
  "CustomCharset opts \<noteq> [] \<Longrightarrow>
     getCharset opts =
       (CustomCharset opts,
        if isURISafe (CustomCharset opts) then [] else [NotURISafe (CustomCharset opts)]) \<and>
     isURISafe (CustomCharset opts) = (set (CustomCharset opts) \<subseteq> set safeChars) \<and>
     (2 \<le> length (CustomCharset opts) \<and> length (CustomCharset opts) \<le> 256 \<longrightarrow>
        Generate src opts =
          (randString src (if Length opts \<le> 0 then DefaultLength else Length opts)
             (if MaxBadReads opts \<le> 0 then DefaultMaxBadReads else MaxBadReads opts)
             (CustomCharset opts))
            \<lparr>res_stdout := (if Length opts \<le> 0 then [InvalidLength (Length opts)] else [])
               @ (if isURISafe (CustomCharset opts) then []
                  else [NotURISafe (CustomCharset opts)])\<rparr> \<and>
        res_err (Generate src opts) \<noteq> Some NoValidChars \<and>
        res_err (Generate src opts) \<noteq> Some CharsetSize)"
proof -
  assume c: "CustomCharset opts \<noteq> []"
  then have g: "getCharset opts =
       (CustomCharset opts,
        if isURISafe (CustomCharset opts) then [] else [NotURISafe (CustomCharset opts)])"
    by (simp add: getCharset_def)
  let ?r = "randString src (if Length opts \<le> 0 then DefaultLength else Length opts)
             (if MaxBadReads opts \<le> 0 then DefaultMaxBadReads else MaxBadReads opts)
             (CustomCharset opts)"
  let ?n = "(if Length opts \<le> 0 then [InvalidLength (Length opts)] else [])
               @ (if isURISafe (CustomCharset opts) then []
                  else [NotURISafe (CustomCharset opts)])"
  have G: "Generate src opts = ?r\<lparr>res_stdout := ?n\<rparr>"
    using c by (simp add: Generate_unfold g)
  have e1: "res_err (Generate src opts) \<noteq> Some NoValidChars"
    by (simp add: G randString_not_NoValidChars)
  have e2: "res_err (Generate src opts) \<noteq> Some CharsetSize"
    if "2 \<le> length (CustomCharset opts)" "length (CustomCharset opts) \<le> 256"
    using that by (simp add: G randString_CharsetSize_iff)
  from g G e1 e2 show ?thesis
    by (simp add: isURISafe_iff)
qed

text \<open>
  C7 at the alphabet \<^verbatim>\<open>"abcABC123<>#"\<close>, which is not URI-safe.
\<close>

theorem custom_charset_witness:
  "CustomCharset (NewOpts\<lparr>CustomCharset := ''abcABC123<>#''\<rparr>) \<noteq> [] \<and>
   \<not> isURISafe ''abcABC123<>#'' \<and>
   2 \<le> length ''abcABC123<>#'' \<and> length ''abcABC123<>#'' \<le> 256 \<and>
   getCharset (NewOpts\<lparr>CustomCharset := ''abcABC123<>#''\<rparr>) =
     (''abcABC123<>#'', [NotURISafe ''abcABC123<>#'']) \<and>
   res_err (Generate (constSource 0) (NewOpts\<lparr>CustomCharset := ''abcABC123<>#''\<rparr>))
     \<noteq> Some CharsetSize"
proof -
  let ?opts = "NewOpts\<lparr>CustomCharset := ''abcABC123<>#''\<rparr>"
  have c: "CustomCharset ?opts = ''abcABC123<>#''"
    by simp
  have h: "CustomCharset ?opts \<noteq> []"
    by simp
  have l: "2 \<le> length ''abcABC123<>#''" "length ''abcABC123<>#'' \<le> 256"
    by simp_all
  then have l': "2 \<le> length (CustomCharset ?opts) \<and> length (CustomCharset ?opts) \<le> 256"
    by (simp only: c)
  note T = custom_charset[OF h, of "constSource 0"]
  from T have "getCharset ?opts =
       (CustomCharset ?opts,
        if isURISafe (CustomCharset ?opts) then [] else [NotURISafe (CustomCharset ?opts)])"
    by (rule conjunct1)
  then have g: "getCharset ?opts = (''abcABC123<>#'', [NotURISafe ''abcABC123<>#''])"
    using unsafe_example by (simp only: c if_False)
  from T l' have e: "res_err (Generate (constSource 0) ?opts) \<noteq> Some CharsetSize"
    by blast
  from h unsafe_example l g e show ?thesis
    by blast
qed

subsection \<open>C8: the flags never give a bad alphabet\<close>

text \<open>
  C8. Without a custom alphabet, the resolved alphabet is not empty and has between 2
  and 256 characters, whatever the three flags, so \<^verbatim>\<open>Generate\<close> returns neither
  "no valid chars" nor the alphabet size error.
\<close>

theorem flag_charset_size:
  "CustomCharset opts = [] \<Longrightarrow>
     fst (getCharset opts) \<noteq> [] \<and>
     2 \<le> length (fst (getCharset opts)) \<and> length (fst (getCharset opts)) \<le> 256 \<and>
     res_err (Generate src opts) \<noteq> Some NoValidChars \<and>
     res_err (Generate src opts) \<noteq> Some CharsetSize"
proof -
  assume c: "CustomCharset opts = []"
  from getCharset_flags_length[OF c]
  have l: "2 \<le> length (fst (getCharset opts))" "length (fst (getCharset opts)) \<le> 256"
    by auto
  then have ne: "fst (getCharset opts) \<noteq> []"
    by auto
  have "res_err (Generate src opts) \<noteq> Some NoValidChars"
    using ne by (simp add: Generate_unfold randString_not_NoValidChars)
  moreover have "res_err (Generate src opts) \<noteq> Some CharsetSize"
    using ne l by (simp add: Generate_unfold randString_CharsetSize_iff)
  ultimately show ?thesis
    using l ne by simp
qed

text \<open>
  C8 with all three subsets excluded: 62 characters.
\<close>

theorem flag_charset_size_witness:
  "CustomCharset (NewOpts\<lparr>ExcludeNumeric := True, ExcludeLowercase := True,
       ExcludeUppercase := True\<rparr>) = [] \<and>
   length (fst (getCharset (NewOpts\<lparr>ExcludeNumeric := True, ExcludeLowercase := True,
       ExcludeUppercase := True\<rparr>))) = 62 \<and>
   res_err (Generate (constSource 0) (NewOpts\<lparr>ExcludeNumeric := True,
       ExcludeLowercase := True, ExcludeUppercase := True\<rparr>)) \<noteq> Some NoValidChars"
proof -
  have h: "CustomCharset (NewOpts\<lparr>ExcludeNumeric := True, ExcludeLowercase := True,
       ExcludeUppercase := True\<rparr>) = []"
    by (simp add: NewOpts_def)
  have "length (fst (getCharset (NewOpts\<lparr>ExcludeNumeric := True, ExcludeLowercase := True,
       ExcludeUppercase := True\<rparr>))) = 62"
    by (simp add: getCharset_flags h charset_lengths NewOpts_def)
  with flag_charset_size[OF h, of "constSource 0"] h show ?thesis
    by simp
qed

subsection \<open>C9: the number of reads\<close>



subsection \<open>C10: no string beside an error\<close>

text \<open>
  C10. Whenever the sampler or \<^verbatim>\<open>Generate\<close> returns an error, the string returned
  with it is empty.
\<close>

theorem error_comes_with_empty_string:
  "(res_err (randString src len m cs) \<noteq> None \<longrightarrow> res_string (randString src len m cs) = []) \<and>
   (res_err (Generate src' opts) \<noteq> None \<longrightarrow> res_string (Generate src' opts) = [])"
proof (intro conjI impI)
  assume "res_err (randString src len m cs) \<noteq> None"
  then show "res_string (randString src len m cs) = []"
    by (rule randString_err_empty)
next
  assume e: "res_err (Generate src' opts) \<noteq> None"
  show "res_string (Generate src' opts) = []"
  proof (cases "fst (getCharset opts) = []")
    case True
    then show ?thesis by (simp add: Generate_unfold)
  next
    case False
    with e show ?thesis
      by (simp add: Generate_unfold randString_err_empty)
  qed
qed

text \<open>
  C10 on a source whose bytes are all rejected, and on a source that fails.
\<close>

theorem error_comes_with_empty_string_witness:
  "res_err (randString (constSource 255) 4 2 ''abc'') \<noteq> None \<and>
   res_string (randString (constSource 255) 4 2 ''abc'') = [] \<and>
   res_err (Generate brokenSource NewOpts) \<noteq> None \<and>
   res_string (Generate brokenSource NewOpts) = []"
proof -
  have h1: "res_err (randString (constSource 255) 4 2 ''abc'') \<noteq> None"
    by (simp add: eval_all_rejected)
  have h2: "res_err (Generate brokenSource NewOpts) \<noteq> None"
    by (simp add: eval_broken)
  from error_comes_with_empty_string[of "constSource 255" 4 2 "''abc''" brokenSource NewOpts]
    h1 h2 show ?thesis by blast
qed

end
